theory Spec2Isabelle
  imports Main "HOL-Library.Multiset"
begin

section \<open>Heights and errors\<close>

text \<open>
  \<^verbatim>\<open>base.Height\<close> is a Go \<^verbatim>\<open>int64\<close>. It is modelled as \<open>int\<close>; the only arithmetic the
  embedded code does on a height is \<^verbatim>\<open>height - 1\<close> in \<^verbatim>\<open>cleanByHeight\<close>, behind the guard
  \<^verbatim>\<open>height > PreGenesisHeight+1\<close>, which cannot wrap. The sentinels are the constants of
  the mitum library (\<^verbatim>\<open>base.NilHeight = Height(-2)\<close>, \<^verbatim>\<open>base.PreGenesisHeight = Height(-1)\<close>).
\<close>

type_synonym Height = int

definition NilHeight :: Height where
  "NilHeight = - 2"

definition PreGenesisHeight :: Height where
  "PreGenesisHeight = - 1"

definition in_int64 :: "int \<Rightarrow> bool" where
  "in_int64 h = (- (2 ^ 63) \<le> h \<and> h < 2 ^ 63)"

definition in_uint64 :: "nat \<Rightarrow> bool" where
  "in_uint64 i = (i < 2 ^ 64)"

text \<open>
  Go errors as values. \<open>NotFoundError\<close> is \<^verbatim>\<open>util.NotFoundError\<close> (with its message),
  \<open>StorageError\<close> is what the MongoDB driver or \<^verbatim>\<open>storage.WrapStorageError\<close> hands back,
  \<open>Errorf\<close> is an \<^verbatim>\<open>xerrors.Errorf\<close> value with its text.
\<close>

datatype error =
    Errorf string
  | NotFoundError string
  | StorageError string
  | SyntaxError string
  | RangeError string

section \<open>The derived store\<close>

subsection \<open>Values and documents\<close>

type_synonym CurrencyID = string

record Amount =
  am_big :: int
  am_currency :: CurrencyID

text \<open>
  \<^verbatim>\<open>AccountValue\<close>: the account (here its address key, the string
  \<^verbatim>\<open>currency.StateAddressKeyPrefix\<close> makes of the address), the balance, the height and the
  previous height.
\<close>

record AccountValue =
  av_ac :: string
  av_balance :: "Amount list"
  av_height :: Height
  av_previousHeight :: Height

record OperationValue =
  op_fact :: string
  op_height :: Height
  op_in_state :: bool
  op_index :: nat

text \<open>
  A \<^verbatim>\<open>state.State\<close> as far as the store reads it: the address its key starts with, its
  height, its previous height and its value. \<^verbatim>\<open>currency.StateBalanceValue\<close> accepts a state
  only when its value is an \<^verbatim>\<open>Amount\<close>.
\<close>

datatype state_value = AmountValue Amount | OtherValue string

record State =
  st_address :: string
  st_height :: Height
  st_previousHeight :: Height
  st_value :: state_value

definition StateBalanceValue :: "State \<Rightarrow> error + Amount" where
  "StateBalanceValue sta =
     (case st_value sta of
        AmountValue am \<Rightarrow> Inr am
      | OtherValue v \<Rightarrow> Inl (Errorf ''invalid balance value found''))"

text \<open>
  The documents of the collections, by the Go type whose \<^verbatim>\<open>MarshalBSON\<close> wrote them
  (\<^verbatim>\<open>doc_account.go\<close>): an \<^verbatim>\<open>AccountDoc\<close> holds an \<^verbatim>\<open>AccountValue\<close>, a \<^verbatim>\<open>BalanceDoc\<close> and a
  \<^verbatim>\<open>DocumentDoc\<close> hold a state, an operation document holds the addresses the operation is
  indexed under and its \<^verbatim>\<open>OperationValue\<close>. The file data documents hold a state as well.
\<close>

datatype doc =
    AccountDoc AccountValue
  | BalanceDoc State
  | DocumentDoc State
  | OperationDoc "string list" OperationValue
  | FileDataDoc State

text \<open>
  The indexed fields \<^verbatim>\<open>MarshalBSON\<close> adds to a document. A \<^verbatim>\<open>BalanceDoc\<close> takes its
  \<^verbatim>\<open>currency\<close> from the amount of its state and its \<^verbatim>\<open>height\<close> from the state; an
  \<^verbatim>\<open>AccountDoc\<close> takes \<^verbatim>\<open>address\<close> and \<^verbatim>\<open>height\<close> from the account value.
\<close>

datatype bval = BString string | BInt int

datatype fval = Scalar bval | Array "string list"

fun doc_height :: "doc \<Rightarrow> Height" where
  "doc_height (AccountDoc rs) = av_height rs"
| "doc_height (BalanceDoc sta) = st_height sta"
| "doc_height (DocumentDoc sta) = st_height sta"
| "doc_height (OperationDoc adrs va) = op_height va"
| "doc_height (FileDataDoc sta) = st_height sta"

fun doc_currency :: "doc \<Rightarrow> CurrencyID option" where
  "doc_currency (BalanceDoc sta) =
     (case st_value sta of AmountValue am \<Rightarrow> Some (am_currency am) | OtherValue v \<Rightarrow> None)"
| "doc_currency d = None"

fun doc_address :: "doc \<Rightarrow> string option" where
  "doc_address (AccountDoc rs) = Some (av_ac rs)"
| "doc_address (BalanceDoc sta) = Some (st_address sta)"
| "doc_address (DocumentDoc sta) = Some (st_address sta)"
| "doc_address (OperationDoc adrs va) = None"
| "doc_address (FileDataDoc sta) = Some (st_address sta)"

fun doc_addresses :: "doc \<Rightarrow> string list option" where
  "doc_addresses (OperationDoc adrs va) = Some adrs"
| "doc_addresses d = None"

fun doc_index :: "doc \<Rightarrow> nat option" where
  "doc_index (OperationDoc adrs va) = Some (op_index va)"
| "doc_index d = None"

fun doc_fact :: "doc \<Rightarrow> string option" where
  "doc_fact (OperationDoc adrs va) = Some (op_fact va)"
| "doc_fact d = None"

definition doc_field :: "doc \<Rightarrow> string \<Rightarrow> fval option" where
  "doc_field d f =
     (if f = ''height'' then Some (Scalar (BInt (doc_height d)))
      else if f = ''address'' then map_option (\<lambda>a. Scalar (BString a)) (doc_address d)
      else if f = ''currency'' then map_option (\<lambda>c. Scalar (BString c)) (doc_currency d)
      else if f = ''addresses'' then map_option Array (doc_addresses d)
      else if f = ''index'' then map_option (\<lambda>i. Scalar (BInt (int i))) (doc_index d)
      else if f = ''fact'' then map_option (\<lambda>h. Scalar (BString h)) (doc_fact d)
      else None)"

subsection \<open>Query filters\<close>

text \<open>
  The \<^verbatim>\<open>bson.M\<close> filters the store builds: a field with a condition, \<^verbatim>\<open>$or\<close> and \<^verbatim>\<open>$and\<close>.
  A filter document with several keys is the list of its entries, all of which must match.
  The order conditions compare numbers; the store never compares strings by order.
  On an array field, \<^verbatim>\<open>$in\<close> matches when some element of the array is in the list.
\<close>

datatype cond =
    CEq bval
  | CLt bval
  | CGt bval
  | CGte bval
  | CIn "string list"
  | CNin "string list"

datatype bfilter =
    FField string cond
  | FOr "bfilter list"
  | FAnd "bfilter list"

fun bval_lt :: "bval \<Rightarrow> bval \<Rightarrow> bool" where
  "bval_lt (BInt a) (BInt b) = (a < b)"
| "bval_lt a b = False"

fun matches_in :: "string list \<Rightarrow> fval option \<Rightarrow> bool" where
  "matches_in ss (Some (Scalar (BString s))) = (s \<in> set ss)"
| "matches_in ss (Some (Array xs)) = list_ex (\<lambda>x. x \<in> set ss) xs"
| "matches_in ss v = False"

fun matches_cond :: "cond \<Rightarrow> fval option \<Rightarrow> bool" where
  "matches_cond (CEq v) (Some (Scalar w)) = (w = v)"
| "matches_cond (CEq v) (Some (Array xs)) = (case v of BString s \<Rightarrow> s \<in> set xs | BInt n \<Rightarrow> False)"
| "matches_cond (CEq v) None = False"
| "matches_cond (CLt v) (Some (Scalar w)) = bval_lt w v"
| "matches_cond (CLt v) x = False"
| "matches_cond (CGt v) (Some (Scalar w)) = bval_lt v w"
| "matches_cond (CGt v) x = False"
| "matches_cond (CGte v) (Some (Scalar w)) = (bval_lt v w \<or> w = v)"
| "matches_cond (CGte v) x = False"
| "matches_cond (CIn ss) x = matches_in ss x"
| "matches_cond (CNin ss) x = (\<not> matches_in ss x)"

fun matches :: "bfilter \<Rightarrow> doc \<Rightarrow> bool" where
  "matches (FField f c) d = matches_cond c (doc_field d f)"
| "matches (FOr fs) d = list_ex (\<lambda>f. matches f d) fs"
| "matches (FAnd fs) d = list_all (\<lambda>f. matches f d) fs"

definition matches_all :: "bfilter list \<Rightarrow> doc \<Rightarrow> bool" where
  "matches_all q d = list_all (\<lambda>f. matches f d) q"

subsection \<open>The database\<close>

definition defaultColNameAccount :: string where
  "defaultColNameAccount = ''digest_ac''"

definition defaultColNameDocument :: string where
  "defaultColNameDocument = ''digest_dm''"

definition defaultColNameBalance :: string where
  "defaultColNameBalance = ''digest_bl''"

definition defaultColNameOperation :: string where
  "defaultColNameOperation = ''digest_op''"

definition defaultColNameFileData :: string where
  "defaultColNameFileData = ''digest_fd''"

definition DigestStorageLastBlockKey :: string where
  "DigestStorageLastBlockKey = ''digest_last_block''"

definition maxLimit :: int where
  "maxLimit = 50"

text \<open>
  The MongoDB database behind the store: the collections by name, the info entries
  written by \<^verbatim>\<open>SetInfo\<close>, and which driver calls fail (every driver call of the source
  that can return an error is looked up in \<open>fails\<close> before it takes effect).
\<close>

datatype call =
    Drop string
  | BulkWrite string
  | SetInfo string
  | FindCall string
  | GetByFilterCall string

record mongodb =
  collections :: "string \<Rightarrow> doc list"
  info :: "string \<rightharpoonup> Height"
  fails :: "call \<rightharpoonup> error"

record Database =
  database :: mongodb
  readonly :: bool
  lastBlock :: Height

text \<open>\<^verbatim>\<open>NewDatabase\<close>: a writable store whose marker is \<^verbatim>\<open>NilHeight\<close>.\<close>

definition NewDatabase :: "mongodb \<Rightarrow> Database" where
  "NewDatabase st = \<lparr>database = st, readonly = False, lastBlock = NilHeight\<rparr>"

text \<open>An empty MongoDB database on which no call fails.\<close>

definition empty_mongodb :: mongodb where
  "empty_mongodb = \<lparr>collections = (\<lambda>_. []), info = Map.empty, fails = Map.empty\<rparr>"

subsection \<open>The marker and the rollback\<close>

text \<open>
  A method that returns \<^verbatim>\<open>error\<close> and mutates the receiver returns the error (\<open>None\<close> for
  \<^verbatim>\<open>nil\<close>) together with the store as the call leaves it.
\<close>

definition setLastBlock :: "Database \<Rightarrow> Height \<Rightarrow> error option \<times> Database" where
  "setLastBlock st h =
     (case fails (database st) (SetInfo DigestStorageLastBlockKey) of
        Some e \<Rightarrow> (Some e, st)
      | None \<Rightarrow>
          (None, st\<lparr>database := (database st)
                      \<lparr>info := (info (database st))(DigestStorageLastBlockKey \<mapsto> h)\<rparr>,
                    lastBlock := h\<rparr>))"

definition SetLastBlock :: "Database \<Rightarrow> Height \<Rightarrow> error option \<times> Database" where
  "SetLastBlock st h =
     (if readonly st then (Some (Errorf ''readonly mode''), st)
      else if h \<le> lastBlock st then (None, st)
      else setLastBlock st h)"

text \<open>
  The loop of \<^verbatim>\<open>clean\<close>: drop each collection in turn, stopping at the first error.
\<close>

fun drop_collections :: "string list \<Rightarrow> mongodb \<Rightarrow> error option \<times> mongodb" where
  "drop_collections [] db = (None, db)"
| "drop_collections (col # cols) db =
     (case fails db (Drop col) of
        Some e \<Rightarrow> (Some e, db)
      | None \<Rightarrow> drop_collections cols (db\<lparr>collections := (collections db)(col := [])\<rparr>))"

definition clean :: "Database \<Rightarrow> error option \<times> Database" where
  "clean st =
     (case drop_collections
             [defaultColNameAccount, defaultColNameDocument, defaultColNameBalance,
              defaultColNameOperation, defaultColNameFileData] (database st) of
        (Some e, db) \<Rightarrow> (Some e, st\<lparr>database := db\<rparr>)
      | (None, db) \<Rightarrow> setLastBlock (st\<lparr>database := db\<rparr>) NilHeight)"

definition Clean :: "Database \<Rightarrow> error option \<times> Database" where
  "Clean st = (if readonly st then (Some (Errorf ''readonly mode''), st) else clean st)"

text \<open>
  The loop of \<^verbatim>\<open>cleanByHeight\<close>: one ordered bulk write with a single \<^verbatim>\<open>DeleteMany\<close> model
  per collection, stopping at the first error.
\<close>

fun delete_many :: "bfilter list \<Rightarrow> string list \<Rightarrow> mongodb \<Rightarrow> error option \<times> mongodb" where
  "delete_many q [] db = (None, db)"
| "delete_many q (col # cols) db =
     (case fails db (BulkWrite col) of
        Some e \<Rightarrow> (Some e, db)
      | None \<Rightarrow>
          delete_many q cols
            (db\<lparr>collections :=
                  (collections db)(col := filter (\<lambda>d. \<not> matches_all q d) (collections db col))\<rparr>))"

definition cleanByHeight :: "Database \<Rightarrow> Height \<Rightarrow> error option \<times> Database" where
  "cleanByHeight st h =
     (if h \<le> PreGenesisHeight + 1 then clean st
      else
        (case delete_many [FField ''height'' (CGte (BInt h))]
                [defaultColNameAccount, defaultColNameDocument, defaultColNameBalance,
                 defaultColNameOperation] (database st) of
           (Some e, db) \<Rightarrow> (Some e, st\<lparr>database := db\<rparr>)
         | (None, db) \<Rightarrow> setLastBlock (st\<lparr>database := db\<rparr>) (h - 1)))"

definition CleanByHeight :: "Database \<Rightarrow> Height \<Rightarrow> error option \<times> Database" where
  "CleanByHeight st h =
     (if readonly st then (Some (Errorf ''readonly mode''), st) else cleanByHeight st h)"

text \<open>The five collections of the derived store.\<close>

definition all_collections :: "string list" where
  "all_collections =
     [defaultColNameAccount, defaultColNameDocument, defaultColNameBalance,
      defaultColNameOperation, defaultColNameFileData]"

text \<open>The four collections \<^verbatim>\<open>cleanByHeight\<close> deletes from.\<close>

definition by_height_collections :: "string list" where
  "by_height_collections =
     [defaultColNameAccount, defaultColNameDocument, defaultColNameBalance,
      defaultColNameOperation]"

subsection \<open>Digesting a block\<close>

text \<open>
  \<^verbatim>\<open>DigestBlock\<close> drives a block session. The session (\<^verbatim>\<open>NewBlockSession\<close>, \<^verbatim>\<open>Prepare\<close>,
  \<^verbatim>\<open>Commit\<close>) is not part of the sources at hand, so its three operations are parameters:
  the constructor reads the store and the block, \<^verbatim>\<open>Prepare\<close> works on the session alone,
  \<^verbatim>\<open>Commit\<close> writes to the store and hands it back with its error. The deferred
  \<^verbatim>\<open>Close\<close> has its error dropped and is left out.
\<close>

record Block =
  blk_height :: Height
  blk_payload :: string

record 'bs session_ops =
  NewBlockSession :: "Database \<Rightarrow> Block \<Rightarrow> error + 'bs"
  Prepare :: "'bs \<Rightarrow> error + 'bs"
  Commit :: "'bs \<Rightarrow> Database \<Rightarrow> error option \<times> Database"

definition DigestBlock :: "'bs session_ops \<Rightarrow> Database \<Rightarrow> Block \<Rightarrow> error option \<times> Database" where
  "DigestBlock ops st blk =
     (case NewBlockSession ops st blk of
        Inl e \<Rightarrow> (Some e, st)
      | Inr bs \<Rightarrow>
          (case Prepare ops bs of
             Inl e \<Rightarrow> (Some e, st)
           | Inr bs' \<Rightarrow>
               (case Commit ops bs' st of
                  (Some e, st') \<Rightarrow> (Some e, st')
                | (None, st') \<Rightarrow> SetLastBlock st' (blk_height blk))))"

section \<open>Offset cursors\<close>

text \<open>
  \<^verbatim>\<open>buildOffset\<close> is \<^verbatim>\<open>fmt.Sprintf("%d,%d", height, index)\<close>, \<^verbatim>\<open>parseOffset\<close> reads it back
  with \<^verbatim>\<open>strings.SplitN(s, ",", 2)\<close>, \<^verbatim>\<open>base.NewHeightFromString\<close> (which is
  \<^verbatim>\<open>strconv.ParseInt(s, 10, 64)\<close>) and \<^verbatim>\<open>strconv.ParseUint(s, 10, 64)\<close>. The Go library
  functions are modelled after their sources: \<open>%d\<close> prints a minus sign for a negative
  value and then the decimal digits without leading zeros; \<^verbatim>\<open>ParseUint\<close> accepts a
  non-empty string of decimal digits and reports a range error as soon as the value
  passes \<open>2^64 - 1\<close>; \<^verbatim>\<open>ParseInt\<close> strips one leading sign, calls \<^verbatim>\<open>ParseUint\<close> and checks
  the result against \<open>2^63\<close>.
\<close>

definition digit_char :: "nat \<Rightarrow> char" where
  "digit_char d = ''0123456789'' ! d"

definition digit_val :: "char \<Rightarrow> nat option" where
  "digit_val c =
     (let n = (of_char c :: nat) in if 48 \<le> n \<and> n \<le> 57 then Some (n - 48) else None)"

function fmt_uint :: "nat \<Rightarrow> string" where
  "fmt_uint n = (if n < 10 then [digit_char n] else fmt_uint (n div 10) @ [digit_char (n mod 10)])"
  by pat_completeness auto
termination
  by (relation "measure id") auto

declare fmt_uint.simps [simp del]

definition fmt_int :: "int \<Rightarrow> string" where
  "fmt_int i = (if i < 0 then CHR ''-'' # fmt_uint (nat (- i)) else fmt_uint (nat i))"

definition buildOffset :: "Height \<Rightarrow> nat \<Rightarrow> string" where
  "buildOffset h i = fmt_int h @ '','' @ fmt_uint i"

definition maxUint64 :: nat where
  "maxUint64 = 18446744073709551615"

fun ParseUint_loop :: "string \<Rightarrow> nat \<Rightarrow> string \<Rightarrow> error + nat" where
  "ParseUint_loop s0 n [] = Inr n"
| "ParseUint_loop s0 n (c # cs) =
     (case digit_val c of
        None \<Rightarrow> Inl (SyntaxError s0)
      | Some d \<Rightarrow>
          if n \<ge> maxUint64 div 10 + 1 then Inl (RangeError s0)
          else if n * 10 + d > maxUint64 then Inl (RangeError s0)
          else ParseUint_loop s0 (n * 10 + d) cs)"

definition ParseUint :: "string \<Rightarrow> error + nat" where
  "ParseUint s = (if s = [] then Inl (SyntaxError s) else ParseUint_loop s 0 s)"

definition ParseInt :: "string \<Rightarrow> error + int" where
  "ParseInt s0 =
     (if s0 = [] then Inl (SyntaxError s0)
      else
        let neg = (hd s0 = CHR ''-'');
            s = (if hd s0 = CHR ''+'' \<or> hd s0 = CHR ''-'' then tl s0 else s0)
        in case ParseUint s of
             Inl (RangeError e) \<Rightarrow> Inl (RangeError s0)
           | Inl e \<Rightarrow> Inl (SyntaxError s0)
           | Inr un \<Rightarrow>
               if \<not> neg \<and> un \<ge> 2 ^ 63 then Inl (RangeError s0)
               else if neg \<and> un > 2 ^ 63 then Inl (RangeError s0)
               else Inr (if neg then - int un else int un))"

definition NewHeightFromString :: "string \<Rightarrow> error + Height" where
  "NewHeightFromString s = ParseInt s"

text \<open>
  \<^verbatim>\<open>strings.SplitN(s, ",", 2)\<close>: the string itself when it has no comma, otherwise the
  text before the first comma and the whole rest after it.
\<close>

definition SplitN2 :: "string \<Rightarrow> string list" where
  "SplitN2 s =
     (let a = takeWhile (\<lambda>c. c \<noteq> CHR '','') s; b = dropWhile (\<lambda>c. c \<noteq> CHR '','') s
      in if b = [] then [s] else [a, tl b])"

text \<open>
  \<^verbatim>\<open>parseOffset\<close>. \<^verbatim>\<open>SplitN\<close> with \<open>n = 2\<close> never returns nil, so the first branch of the
  source cannot be taken; fewer than two parts is the second branch.
\<close>

definition parseOffset :: "string \<Rightarrow> error + (Height \<times> nat)" where
  "parseOffset s =
     (case SplitN2 s of
        [a, b] \<Rightarrow>
          (case NewHeightFromString a of
             Inl e \<Rightarrow> Inl (Errorf ''invalid height of offset'')
           | Inr h \<Rightarrow>
               (case ParseUint b of
                  Inl e \<Rightarrow> Inl (Errorf ''invalid index of offset'')
                | Inr u \<Rightarrow> Inr (h, u)))
      | _ \<Rightarrow> Inl (Errorf ''invalid offset''))"

section \<open>Queries\<close>

subsection \<open>Sorting, limits and the driver's find calls\<close>

text \<open>
  A sort specification is a list of fields with a direction (\<open>1\<close> ascending, \<open>-1\<close>
  descending), compared in order. The store sorts on \<^verbatim>\<open>height\<close> and \<^verbatim>\<open>index\<close> only; a
  document without an index sorts before every index, and documents compare equal on
  any other field. The driver's order among documents that compare equal is not
  specified; the model keeps them in the order of the collection.
\<close>

type_synonym sort_spec = "(string \<times> int) list"

definition sort_val :: "doc \<Rightarrow> string \<Rightarrow> int" where
  "sort_val d f =
     (if f = ''height'' then doc_height d
      else if f = ''index'' then (case doc_index d of Some i \<Rightarrow> int i | None \<Rightarrow> - 1)
      else 0)"

fun doc_le :: "sort_spec \<Rightarrow> doc \<Rightarrow> doc \<Rightarrow> bool" where
  "doc_le [] a b = True"
| "doc_le ((f, dir) # fs) a b =
     (if sort_val a f = sort_val b f then doc_le fs a b
      else if dir < 0 then sort_val b f < sort_val a f
      else sort_val a f < sort_val b f)"

fun insort_doc :: "sort_spec \<Rightarrow> doc \<Rightarrow> doc list \<Rightarrow> doc list" where
  "insort_doc sp x [] = [x]"
| "insort_doc sp x (y # ys) = (if doc_le sp x y then x # y # ys else y # insort_doc sp x ys)"

definition sort_docs :: "sort_spec \<Rightarrow> doc list \<Rightarrow> doc list" where
  "sort_docs sp ds = foldr (insort_doc sp) ds []"

text \<open>
  The find options the store sets: the sort and the limit (\<open>None\<close> when \<^verbatim>\<open>SetLimit\<close> is not
  called). The projection of the hash-only path selects what is decoded, not which
  documents are found, and is left out. A positive limit caps the number of documents,
  zero is no limit, and a negative limit caps at its absolute value.
\<close>

record find_options =
  opt_sort :: sort_spec
  opt_limit :: "int option"

definition limit_docs :: "int option \<Rightarrow> doc list \<Rightarrow> doc list" where
  "limit_docs l ds =
     (case l of
        None \<Rightarrow> ds
      | Some n \<Rightarrow> if n = 0 then ds else if n < 0 then take (nat (- n)) ds else take (nat n) ds)"

definition find_docs :: "mongodb \<Rightarrow> string \<Rightarrow> bfilter list \<Rightarrow> find_options \<Rightarrow> doc list" where
  "find_docs db col q opt =
     limit_docs (opt_limit opt) (sort_docs (opt_sort opt) (filter (matches_all q) (collections db col)))"

text \<open>
  The cursor loop of \<^verbatim>\<open>Client.Find\<close>: the callback is called on each document in turn and
  answers with an error or with whether to go on. A callback of the source is a closure
  that appends to a variable of its caller; here it takes that variable and returns it.
\<close>

fun find_loop :: "('a \<Rightarrow> doc \<Rightarrow> (error + bool) \<times> 'a) \<Rightarrow> 'a \<Rightarrow> doc list \<Rightarrow> error option \<times> 'a" where
  "find_loop cb acc [] = (None, acc)"
| "find_loop cb acc (d # ds) =
     (case cb acc d of
        (Inl e, acc') \<Rightarrow> (Some e, acc')
      | (Inr keep, acc') \<Rightarrow> if keep then find_loop cb acc' ds else (None, acc'))"

definition Find ::
  "mongodb \<Rightarrow> string \<Rightarrow> bfilter list \<Rightarrow> ('a \<Rightarrow> doc \<Rightarrow> (error + bool) \<times> 'a) \<Rightarrow> find_options \<Rightarrow> 'a
     \<Rightarrow> error option \<times> 'a" where
  "Find db col q cb opt acc =
     (case fails db (FindCall col) of
        Some e \<Rightarrow> (Some e, acc)
      | None \<Rightarrow> find_loop cb acc (find_docs db col q opt))"

text \<open>
  \<^verbatim>\<open>Client.GetByFilter\<close> with a sort: the first document of the sorted matches, or
  \<^verbatim>\<open>util.NotFoundError\<close> when nothing matches.
\<close>

definition GetByFilter :: "mongodb \<Rightarrow> string \<Rightarrow> bfilter list \<Rightarrow> sort_spec \<Rightarrow> error + doc" where
  "GetByFilter db col q sp =
     (case fails db (GetByFilterCall col) of
        Some e \<Rightarrow> Inl e
      | None \<Rightarrow>
          (case sort_docs sp (filter (matches_all q) (collections db col)) of
             [] \<Rightarrow> Inl (NotFoundError ''not found'')
           | d # ds \<Rightarrow> Inr d))"

fun is_NotFoundError :: "error \<Rightarrow> bool" where
  "is_NotFoundError (NotFoundError m) = True"
| "is_NotFoundError e = False"

subsection \<open>Operations\<close>

text \<open>
  \<^verbatim>\<open>buildOperationsFilterByAddress\<close>. The address argument is the key
  \<^verbatim>\<open>currency.StateAddressKeyPrefix(address)\<close>, a string.
\<close>

definition buildOperationsFilterByAddress :: "string \<Rightarrow> string \<Rightarrow> bool \<Rightarrow> error + bfilter list" where
  "buildOperationsFilterByAddress address offset reverse =
     (let fltr = [FField ''addresses'' (CIn [address])] in
      if length offset > 0 then
        (case parseOffset offset of
           Inl e \<Rightarrow> Inl e
         | Inr (h, i) \<Rightarrow>
             if reverse then
               Inr (fltr @
                 [FOr [FField ''height'' (CLt (BInt h)),
                       FAnd [FField ''height'' (CEq (BInt h)),
                             FField ''index'' (CLt (BInt (int i)))]]])
             else
               Inr (fltr @
                 [FOr [FField ''height'' (CGt (BInt h)),
                       FAnd [FField ''height'' (CEq (BInt h)),
                             FField ''index'' (CGt (BInt (int i)))]]]))
      else Inr fltr)"

text \<open>
  The decoders of the cursor callback. \<^verbatim>\<open>loadOperationHash\<close> reads the \<^verbatim>\<open>fact\<close> field alone
  (empty when the document has none); \<^verbatim>\<open>loadOperation\<close> fails on a document that does not
  hold an \<^verbatim>\<open>OperationValue\<close>.
\<close>

definition loadOperationHash :: "doc \<Rightarrow> error + string" where
  "loadOperationHash d = Inr (case doc_fact d of Some h \<Rightarrow> h | None \<Rightarrow> [])"

definition loadOperation :: "doc \<Rightarrow> error + OperationValue" where
  "loadOperation d =
     (case d of
        OperationDoc adrs va \<Rightarrow> Inr va
      | _ \<Rightarrow> Inl (Errorf ''not OperationValue''))"

definition zero_OperationValue :: OperationValue where
  "zero_OperationValue = \<lparr>op_fact = [], op_height = 0, op_in_state = False, op_index = 0\<rparr>"

type_synonym 'a operation_callback = "'a \<Rightarrow> string \<Rightarrow> OperationValue \<Rightarrow> (error + bool) \<times> 'a"

definition operation_cursor :: "bool \<Rightarrow> 'a operation_callback \<Rightarrow> 'a \<Rightarrow> doc \<Rightarrow> (error + bool) \<times> 'a" where
  "operation_cursor load callback acc d =
     (if \<not> load then
        (case loadOperationHash d of
           Inl e \<Rightarrow> (Inl e, acc)
         | Inr h \<Rightarrow> callback acc h zero_OperationValue)
      else
        (case loadOperation d of
           Inl e \<Rightarrow> (Inl e, acc)
         | Inr va \<Rightarrow> callback acc (op_fact va) va))"

text \<open>The sort and the limit both \<^verbatim>\<open>OperationsByAddress\<close> and \<^verbatim>\<open>Operations\<close> set.\<close>

definition operations_options :: "bool \<Rightarrow> int \<Rightarrow> find_options" where
  "operations_options reverse limit =
     (let sr = (if reverse then - 1 else 1) in
      \<lparr>opt_sort = [(''height'', sr), (''index'', sr)],
       opt_limit =
         (if limit \<le> 0 then None
          else if limit > maxLimit then Some maxLimit
          else Some limit)\<rparr>)"

definition OperationsByAddress ::
  "Database \<Rightarrow> string \<Rightarrow> bool \<Rightarrow> bool \<Rightarrow> string \<Rightarrow> int \<Rightarrow> 'a operation_callback \<Rightarrow> 'a
     \<Rightarrow> error option \<times> 'a" where
  "OperationsByAddress st address load reverse offset limit callback acc =
     (case buildOperationsFilterByAddress address offset reverse of
        Inl e \<Rightarrow> (Some e, acc)
      | Inr fltr \<Rightarrow>
          Find (database st) defaultColNameOperation fltr (operation_cursor load callback)
            (operations_options reverse limit) acc)"

definition Operations ::
  "Database \<Rightarrow> bfilter list \<Rightarrow> bool \<Rightarrow> bool \<Rightarrow> int \<Rightarrow> 'a operation_callback \<Rightarrow> 'a
     \<Rightarrow> error option \<times> 'a" where
  "Operations st fltr load reverse limit callback acc =
     Find (database st) defaultColNameOperation fltr (operation_cursor load callback)
       (operations_options reverse limit) acc"

text \<open>
  Two callbacks to observe a scan with: one that appends each fact hash it is given, and
  a wrapper that counts the calls of a callback.
\<close>

definition collect_hashes :: "string list operation_callback" where
  "collect_hashes acc h va = (Inr True, acc @ [h])"

definition counted :: "'a operation_callback \<Rightarrow> (nat \<times> 'a) operation_callback" where
  "counted callback acc h va =
     (case callback (snd acc) h va of (r, a) \<Rightarrow> (r, (Suc (fst acc), a)))"

subsection \<open>Accounts and balances\<close>

definition loadAccountValue :: "doc \<Rightarrow> error + AccountValue" where
  "loadAccountValue d =
     (case d of
        AccountDoc rs \<Rightarrow> Inr rs
      | _ \<Rightarrow> Inl (Errorf ''not AccountValue''))"

definition loadBalance :: "doc \<Rightarrow> error + State" where
  "loadBalance d =
     (case d of
        BalanceDoc sta \<Rightarrow> Inr sta
      | DocumentDoc sta \<Rightarrow> Inr sta
      | FileDataDoc sta \<Rightarrow> Inr sta
      | _ \<Rightarrow> Inl (Errorf ''not currency.Big''))"

text \<open>
  The map \<^verbatim>\<open>amm\<close> of \<^verbatim>\<open>balance\<close>, as an association list: \<^verbatim>\<open>amm[k] = v\<close> replaces the entry
  of \<open>k\<close> or adds one. Go ranges over a map in no fixed order; the list of amounts
  is given in the order the currencies were first set.
\<close>

fun amm_set :: "CurrencyID \<Rightarrow> Amount \<Rightarrow> (CurrencyID \<times> Amount) list \<Rightarrow> (CurrencyID \<times> Amount) list" where
  "amm_set k v [] = [(k, v)]"
| "amm_set k v ((k', v') # m) = (if k' = k then (k, v) # m else (k', v') # amm_set k v m)"

definition balance_query :: "string \<Rightarrow> string list \<Rightarrow> bfilter list" where
  "balance_query a cids =
     (if length cids < 1 then [FField ''address'' (CEq (BString a))]
      else [FField ''address'' (CEq (BString a)), FField ''currency'' (CNin cids)])"

text \<open>
  The loop of \<^verbatim>\<open>balance\<close>. It leaves with the result when nothing more is found, with an
  error when a lookup or a decoding fails, and goes round again otherwise; on a
  collection where it finds the same document again and again it does not return,
  which is the value \<open>None\<close>.
\<close>

partial_function (option) balance_loop ::
  "mongodb \<Rightarrow> string \<Rightarrow> string list \<Rightarrow> (CurrencyID \<times> Amount) list \<Rightarrow> Height \<Rightarrow> Height
     \<Rightarrow> (error + ((CurrencyID \<times> Amount) list \<times> Height \<times> Height)) option" where
  "balance_loop db a cids amm lastHeight previousHeight =
     (case GetByFilter db defaultColNameBalance (balance_query a cids) [(''height'', - 1)] of
        Inl e \<Rightarrow>
          if is_NotFoundError e then Some (Inr (amm, lastHeight, previousHeight))
          else Some (Inl e)
      | Inr d \<Rightarrow>
          (case loadBalance d of
             Inl e \<Rightarrow>
               if is_NotFoundError e then Some (Inr (amm, lastHeight, previousHeight))
               else Some (Inl e)
           | Inr sta \<Rightarrow>
               (case StateBalanceValue sta of
                  Inl e \<Rightarrow> Some (Inl e)
                | Inr i \<Rightarrow>
                    if st_height sta > lastHeight
                    then balance_loop db a (cids @ [am_currency i]) (amm_set (am_currency i) i amm)
                           (st_height sta) (st_previousHeight sta)
                    else balance_loop db a (cids @ [am_currency i]) (amm_set (am_currency i) i amm)
                           lastHeight previousHeight)))"

definition balance :: "Database \<Rightarrow> string \<Rightarrow> (error + (Amount list \<times> Height \<times> Height)) option" where
  "balance st a =
     (case balance_loop (database st) a [] [] NilHeight NilHeight of
        None \<Rightarrow> None
      | Some (Inl e) \<Rightarrow> Some (Inl e)
      | Some (Inr (amm, lastHeight, previousHeight)) \<Rightarrow>
          Some (Inr (map snd amm, lastHeight, previousHeight)))"

definition zero_AccountValue :: AccountValue where
  "zero_AccountValue = \<lparr>av_ac = [], av_balance = [], av_height = 0, av_previousHeight = 0\<rparr>"

text \<open>
  \<^verbatim>\<open>Account\<close> returns the value, whether the account exists, and the error; \<open>None\<close> when
  the balance loop does not return.
\<close>

definition Account :: "Database \<Rightarrow> string \<Rightarrow> (AccountValue \<times> bool \<times> error option) option" where
  "Account st a =
     (case (case GetByFilter (database st) defaultColNameAccount
                   [FField ''address'' (CEq (BString a))] [(''height'', - 1)] of
              Inl e \<Rightarrow> Inl e
            | Inr d \<Rightarrow> loadAccountValue d) of
        Inl e \<Rightarrow>
          if is_NotFoundError e then Some (zero_AccountValue, False, None)
          else Some (zero_AccountValue, False, Some e)
      | Inr rs \<Rightarrow>
          (case balance st a of
             None \<Rightarrow> None
           | Some (Inl e) \<Rightarrow> Some (rs, False, Some e)
           | Some (Inr (am, lastHeight, previousHeight)) \<Rightarrow>
               Some (rs\<lparr>av_balance := am, av_height := lastHeight,
                        av_previousHeight := previousHeight\<rparr>,
                     True, None)))"

subsection \<open>The cursor, in the words of the specification\<close>

text \<open>
  What a scan from the cursor \<open>(h, i)\<close> is to select among the operations of an address,
  and the order it is to visit them in: forward, the records strictly after the cursor
  in ascending \<open>(height, index)\<close> order; in reverse, the records strictly before it in
  descending order.
\<close>

definition op_selected :: "string \<Rightarrow> bool \<Rightarrow> Height \<Rightarrow> nat \<Rightarrow> doc \<Rightarrow> bool" where
  "op_selected a reverse h i d =
     (case d of
        OperationDoc adrs va \<Rightarrow>
          a \<in> set adrs \<and>
          (if reverse then op_height va < h \<or> (op_height va = h \<and> op_index va < i)
           else h < op_height va \<or> (op_height va = h \<and> i < op_index va))
      | _ \<Rightarrow> False)"

definition cursor_le :: "bool \<Rightarrow> doc \<Rightarrow> doc \<Rightarrow> bool" where
  "cursor_le reverse x y =
     (let hx = doc_height x; ix = (case doc_index x of Some n \<Rightarrow> int n | None \<Rightarrow> - 1);
          hy = doc_height y; iy = (case doc_index y of Some n \<Rightarrow> int n | None \<Rightarrow> - 1)
      in if reverse then hy < hx \<or> (hy = hx \<and> iy \<le> ix)
         else hx < hy \<or> (hx = hy \<and> ix \<le> iy))"

text \<open>A callback that keeps every operation value it is given, and what it keeps of a document.\<close>

definition collect_values :: "OperationValue list operation_callback" where
  "collect_values acc h va = (Inr True, acc @ [va])"

fun doc_operation :: "doc \<Rightarrow> OperationValue" where
  "doc_operation (OperationDoc adrs va) = va"
| "doc_operation d = zero_OperationValue"

section \<open>Example stores\<close>

text \<open>Concrete stores, sessions and blocks to instantiate the theorems on.\<close>

definition example_op :: "Height \<Rightarrow> nat \<Rightarrow> doc" where
  "example_op h i =
     OperationDoc [''A''] \<lparr>op_fact = ''op'', op_height = h, op_in_state = True, op_index = i\<rparr>"

definition example_filedata :: doc where
  "example_filedata =
     FileDataDoc \<lparr>st_address = ''A'', st_height = 7, st_previousHeight = 3,
                  st_value = OtherValue ''file''\<rparr>"

definition example_store :: Database where
  "example_store =
     NewDatabase (empty_mongodb\<lparr>collections :=
       (\<lambda>c. if c = defaultColNameOperation then [example_op 7 1, example_op 3 0]
            else if c = defaultColNameFileData then [example_filedata]
            else [])\<rparr>)"

definition many_ops_store :: Database where
  "many_ops_store =
     NewDatabase (empty_mongodb\<lparr>collections := (\<lambda>c. replicate 51 (example_op 1 0))\<rparr>)"

definition example_block :: Block where
  "example_block = \<lparr>blk_height = 3, blk_payload = []\<rparr>"

definition example_session :: "Block session_ops" where
  "example_session =
     \<lparr>NewBlockSession = (\<lambda>st blk. Inr blk), Prepare = Inr, Commit = (\<lambda>bs st. (None, st))\<rparr>"

definition failing_session :: "Block session_ops" where
  "failing_session =
     \<lparr>NewBlockSession = (\<lambda>st blk. Inr blk), Prepare = (\<lambda>bs. Inl (Errorf ''prepare'')),
      Commit = (\<lambda>bs st. (None, st))\<rparr>"

section \<open>Offset round trip\<close>

lemma lt10:
  "(d::nat) < 10 \<Longrightarrow>
     d = 0 \<or> d = 1 \<or> d = 2 \<or> d = 3 \<or> d = 4 \<or> d = 5 \<or> d = 6 \<or> d = 7 \<or> d = 8 \<or> d = 9"
  by arith

lemma digit_val_digit_char: "d < 10 \<Longrightarrow> digit_val (digit_char d) = Some d"
  using lt10[of d] by (auto simp: digit_val_def digit_char_def)

lemma digit_char_neq:
  "d < 10 \<Longrightarrow> digit_char d \<noteq> CHR '',''"
  "d < 10 \<Longrightarrow> digit_char d \<noteq> CHR ''-''"
  "d < 10 \<Longrightarrow> digit_char d \<noteq> CHR ''+''"
  using lt10[of d] by (auto simp: digit_char_def)

lemma fmt_uint_chars: "c \<in> set (fmt_uint n) \<Longrightarrow> \<exists>d<10. c = digit_char d"
proof (induction n rule: fmt_uint.induct)
  case (1 n)
  show ?case
  proof (cases "n < 10")
    case True
    with "1.prems" show ?thesis by (auto simp: fmt_uint.simps[of n])
  next
    case False
    with "1.prems" have "c \<in> set (fmt_uint (n div 10)) \<or> c = digit_char (n mod 10)"
      by (auto simp add: fmt_uint.simps[of n])
    with False "1.IH" show ?thesis by (metis mod_less_divisor zero_less_numeral)
  qed
qed

lemma fmt_uint_nonempty: "fmt_uint n \<noteq> []"
  by (simp add: fmt_uint.simps[of n])

lemma ParseUint_loop_append:
  "ParseUint_loop s0 n (xs @ ys) =
     (case ParseUint_loop s0 n xs of Inl e \<Rightarrow> Inl e | Inr m \<Rightarrow> ParseUint_loop s0 m ys)"
  by (induction xs arbitrary: n) (auto split: option.splits)

lemma ParseUint_loop_fmt: "n \<le> maxUint64 \<Longrightarrow> ParseUint_loop s0 0 (fmt_uint n) = Inr n"
proof (induction n rule: fmt_uint.induct)
  case (1 n)
  show ?case
  proof (cases "n < 10")
    case True
    then show ?thesis using "1.prems"
      by (simp add: fmt_uint.simps[of n] digit_val_digit_char maxUint64_def)
  next
    case False
    have "n div 10 \<le> maxUint64" using "1.prems" by simp
    with False "1.IH" have ih: "ParseUint_loop s0 0 (fmt_uint (n div 10)) = Inr (n div 10)" by simp
    have a: "\<not> n div 10 \<ge> maxUint64 div 10 + 1" using "1.prems" by (simp add: maxUint64_def)
    have b: "n div 10 * 10 + n mod 10 = n" by simp
    show ?thesis using False ih a b "1.prems"
      by (simp add: fmt_uint.simps[of n] ParseUint_loop_append digit_val_digit_char del: div_mult_mod_eq)
  qed
qed


lemma ParseUint_fmt_uint: "n \<le> maxUint64 \<Longrightarrow> ParseUint (fmt_uint n) = Inr n"
  by (simp add: ParseUint_def fmt_uint_nonempty ParseUint_loop_fmt)

lemma hd_fmt_uint: "hd (fmt_uint n) \<noteq> CHR ''-'' \<and> hd (fmt_uint n) \<noteq> CHR ''+''"
proof -
  have "hd (fmt_uint n) \<in> set (fmt_uint n)" by (simp add: fmt_uint_nonempty)
  then obtain d where "d < 10" "hd (fmt_uint n) = digit_char d"
    using fmt_uint_chars by blast
  then show ?thesis by (simp add: digit_char_neq)
qed

lemma ParseInt_fmt_int: "in_int64 h \<Longrightarrow> ParseInt (fmt_int h) = Inr h"
proof (cases "h < 0")
  case True
  assume "in_int64 h"
  with True have m: "nat (- h) \<le> maxUint64" "\<not> nat (- h) > 2 ^ 63"
    by (simp_all add: in_int64_def maxUint64_def)
  show ?thesis using True m
    by (simp add: ParseInt_def fmt_int_def ParseUint_fmt_uint)
next
  case False
  assume "in_int64 h"
  with False have m: "nat h \<le> maxUint64" "\<not> nat h \<ge> 2 ^ 63"
    by (simp_all add: in_int64_def maxUint64_def)
  show ?thesis using False m hd_fmt_uint[of "nat h"]
    by (simp add: ParseInt_def fmt_int_def ParseUint_fmt_uint fmt_uint_nonempty Let_def)
qed

lemma no_comma_fmt_uint: "CHR '','' \<notin> set (fmt_uint n)"
proof
  assume "CHR '','' \<in> set (fmt_uint n)"
  then obtain d where "d < 10" "CHR '','' = digit_char d"
    using fmt_uint_chars by blast
  then show False using digit_char_neq(1) [of d] by simp
qed

lemma no_comma_fmt_int: "CHR '','' \<notin> set (fmt_int h)"
  by (simp add: fmt_int_def no_comma_fmt_uint)

lemma SplitN2_pair: "CHR '','' \<notin> set a \<Longrightarrow> SplitN2 (a @ '','' @ b) = [a, b]"
proof -
  assume "CHR '','' \<notin> set a"
  then have "\<And>x. x \<in> set a \<Longrightarrow> x \<noteq> CHR '',''" by blast
  then show ?thesis by (simp add: SplitN2_def)
qed

lemma buildOffset_nonempty: "buildOffset h i \<noteq> []"
  by (simp add: buildOffset_def)

lemma parseOffset_buildOffset_eq:
  assumes h: "in_int64 h" and i: "in_uint64 i"
  shows "parseOffset (buildOffset h i) = Inr (h, i)"
proof -
  have s: "SplitN2 (buildOffset h i) = [fmt_int h, fmt_uint i]"
    unfolding buildOffset_def by (rule SplitN2_pair) (rule no_comma_fmt_int)
  have u: "ParseUint (fmt_uint i) = Inr i"
    using i by (simp add: ParseUint_fmt_uint in_uint64_def maxUint64_def)
  show ?thesis
    by (simp add: parseOffset_def s u NewHeightFromString_def ParseInt_fmt_int[OF h])
qed

text \<open>
  C1. For every height \<open>h\<close> that is an \<^verbatim>\<open>int64\<close> (every valid height is one) and every
  index \<open>i\<close> that is a \<^verbatim>\<open>uint64\<close>, \<^verbatim>\<open>parseOffset(buildOffset(h, i))\<close> succeeds and returns
  exactly \<open>(h, i)\<close>.
\<close>

theorem parseOffset_buildOffset:
  "in_int64 h \<Longrightarrow> in_uint64 i \<Longrightarrow> parseOffset (buildOffset h i) = Inr (h, i)"
  by (rule parseOffset_buildOffset_eq)

theorem parseOffset_buildOffset_witness:
  "in_int64 33 \<and> in_uint64 20 \<and> parseOffset (buildOffset 33 20) = Inr (33, 20)"
  using parseOffset_buildOffset [of 33 20] by (simp add: in_int64_def in_uint64_def)

section \<open>Rollback by height\<close>

lemma matches_height_gte: "matches_all [FField ''height'' (CGte (BInt h))] d = (h \<le> doc_height d)"
  by (auto simp: matches_all_def doc_field_def)

lemma drop_collections_ok:
  "drop_collections cols db = (None, db') \<Longrightarrow>
     collections db' = (\<lambda>c. if c \<in> set cols then [] else collections db c) \<and>
     info db' = info db \<and> fails db' = fails db"
proof (induction cols arbitrary: db)
  case Nil
  then show ?case by simp
next
  case (Cons col cols)
  then show ?case by (fastforce split: option.splits)
qed

lemma drop_collections_no_fault: "fails db = Map.empty \<Longrightarrow> fst (drop_collections cols db) = None"
  by (induction cols arbitrary: db) simp_all

lemma delete_many_ok:
  "delete_many q cols db = (None, db') \<Longrightarrow>
     collections db' =
       (\<lambda>c. if c \<in> set cols then filter (\<lambda>d. \<not> matches_all q d) (collections db c)
            else collections db c) \<and>
     info db' = info db \<and> fails db' = fails db"
proof (induction cols arbitrary: db)
  case Nil
  then show ?case by simp
next
  case (Cons col cols)
  then show ?case by (fastforce split: option.splits)
qed

lemma delete_many_no_fault: "fails db = Map.empty \<Longrightarrow> fst (delete_many q cols db) = None"
  by (induction cols arbitrary: db) simp_all

lemma setLastBlock_ok:
  "setLastBlock st h = (None, st') \<Longrightarrow>
     lastBlock st' = h \<and> collections (database st') = collections (database st)"
  by (auto simp: setLastBlock_def split: option.splits)

lemma setLastBlock_no_fault:
  "fails (database st) = Map.empty \<Longrightarrow> fst (setLastBlock st h) = None"
  by (simp add: setLastBlock_def)

lemma clean_ok:
  assumes "clean st = (None, st')"
  shows "lastBlock st' = NilHeight \<and>
         collections (database st') = (\<lambda>c. if c \<in> set all_collections then [] else collections (database st) c)"
proof -
  obtain e db where d: "drop_collections all_collections (database st) = (e, db)"
    by (cases "drop_collections all_collections (database st)")
  with assms have e: "e = None" and s: "setLastBlock (st\<lparr>database := db\<rparr>) NilHeight = (None, st')"
    by (auto simp: clean_def all_collections_def split: option.splits)
  from d e have "collections db = (\<lambda>c. if c \<in> set all_collections then [] else collections (database st) c)"
    using drop_collections_ok by blast
  with setLastBlock_ok [OF s] show ?thesis by simp
qed

lemma clean_no_fault:
  assumes "fails (database st) = Map.empty"
  shows "fst (clean st) = None"
proof -
  obtain e db where d: "drop_collections all_collections (database st) = (e, db)"
    by (cases "drop_collections all_collections (database st)")
  have e: "e = None" using drop_collections_no_fault [OF assms, of all_collections] d by simp
  with d have "fails db = Map.empty" using drop_collections_ok assms by metis
  then have "fst (setLastBlock (st\<lparr>database := db\<rparr>) NilHeight) = None"
    by (simp add: setLastBlock_no_fault)
  with d e show ?thesis by (simp add: clean_def all_collections_def)
qed

lemma cleanByHeight_ok:
  assumes "cleanByHeight st h = (None, st')" and "PreGenesisHeight + 1 < h"
  shows "lastBlock st' = h - 1 \<and>
         collections (database st') =
           (\<lambda>c. if c \<in> set by_height_collections
                then filter (\<lambda>d. doc_height d < h) (collections (database st) c)
                else collections (database st) c)"
proof -
  let ?q = "[FField ''height'' (CGte (BInt h))]"
  obtain e db where d: "delete_many ?q by_height_collections (database st) = (e, db)"
    by (cases "delete_many ?q by_height_collections (database st)")
  with assms have e: "e = None" and s: "setLastBlock (st\<lparr>database := db\<rparr>) (h - 1) = (None, st')"
    by (auto simp: cleanByHeight_def by_height_collections_def split: option.splits)
  from d e have "collections db =
      (\<lambda>c. if c \<in> set by_height_collections
           then filter (\<lambda>d. \<not> matches_all ?q d) (collections (database st) c)
           else collections (database st) c)"
    using delete_many_ok by blast
  then have "collections db =
      (\<lambda>c. if c \<in> set by_height_collections
           then filter (\<lambda>d. doc_height d < h) (collections (database st) c)
           else collections (database st) c)"
    by (simp add: matches_height_gte not_le cong: if_cong)
  with setLastBlock_ok [OF s] show ?thesis by simp
qed

lemma cleanByHeight_no_fault:
  assumes "fails (database st) = Map.empty"
  shows "fst (cleanByHeight st h) = None"
proof (cases "h \<le> PreGenesisHeight + 1")
  case True
  then show ?thesis by (simp add: cleanByHeight_def clean_no_fault [OF assms])
next
  case False
  let ?q = "[FField ''height'' (CGte (BInt h))]"
  obtain e db where d: "delete_many ?q by_height_collections (database st) = (e, db)"
    by (cases "delete_many ?q by_height_collections (database st)")
  have e: "e = None" using delete_many_no_fault [OF assms, of ?q by_height_collections] d by simp
  with d have "fails db = Map.empty" using delete_many_ok assms by metis
  then have "fst (setLastBlock (st\<lparr>database := db\<rparr>) (h - 1)) = None"
    by (simp add: setLastBlock_no_fault)
  with d e False show ?thesis by (simp add: cleanByHeight_def by_height_collections_def)
qed

text \<open>
  The claim C2 as it is written fails at the genesis height: \<^verbatim>\<open>CleanByHeight(0)\<close> on an
  empty writable store succeeds and leaves the marker at \<^verbatim>\<open>NilHeight\<close>, not at \<open>0 - 1\<close>.
\<close>

theorem CleanByHeight_genesis_marker:
  "\<not> readonly (NewDatabase empty_mongodb) \<and>
   fst (CleanByHeight (NewDatabase empty_mongodb) 0) = None \<and>
   lastBlock (snd (CleanByHeight (NewDatabase empty_mongodb) 0)) = NilHeight \<and>
   NilHeight \<noteq> 0 - 1"
  by (simp add: CleanByHeight_def cleanByHeight_def clean_def setLastBlock_def
      NewDatabase_def empty_mongodb_def PreGenesisHeight_def NilHeight_def)

text \<open>
  C2 (amended). On a writable store \<^verbatim>\<open>CleanByHeight(h)\<close> succeeds when no driver call
  fails. When it succeeds with \<open>h\<close> above the genesis height, each of the account,
  document, balance and operation collections keeps exactly its records of height below
  \<open>h\<close> and the marker is \<open>h - 1\<close>; when it succeeds with \<open>h\<close> at or below the genesis
  height, all five collections are empty and the marker is \<^verbatim>\<open>NilHeight\<close>.
\<close>

theorem CleanByHeight_rollback:
  assumes "\<not> readonly st"
  shows "(fails (database st) = Map.empty \<longrightarrow> fst (CleanByHeight st h) = None) \<and>
         (fst (CleanByHeight st h) = None \<longrightarrow>
            (if PreGenesisHeight + 1 < h
             then (\<forall>c \<in> set by_height_collections.
                     collections (database (snd (CleanByHeight st h))) c =
                       filter (\<lambda>d. doc_height d < h) (collections (database st) c)) \<and>
                  lastBlock (snd (CleanByHeight st h)) = h - 1
             else (\<forall>c \<in> set all_collections.
                     collections (database (snd (CleanByHeight st h))) c = []) \<and>
                  lastBlock (snd (CleanByHeight st h)) = NilHeight))"
proof (intro conjI impI)
  assume "fails (database st) = Map.empty"
  then show "fst (CleanByHeight st h) = None"
    using assms by (simp add: CleanByHeight_def cleanByHeight_no_fault)
next
  assume ok: "fst (CleanByHeight st h) = None"
  obtain st' where r: "cleanByHeight st h = (None, st')" and s: "snd (CleanByHeight st h) = st'"
    using ok assms by (cases "cleanByHeight st h") (simp add: CleanByHeight_def)
  show "if PreGenesisHeight + 1 < h
        then (\<forall>c \<in> set by_height_collections.
                collections (database (snd (CleanByHeight st h))) c =
                  filter (\<lambda>d. doc_height d < h) (collections (database st) c)) \<and>
             lastBlock (snd (CleanByHeight st h)) = h - 1
        else (\<forall>c \<in> set all_collections.
                collections (database (snd (CleanByHeight st h))) c = []) \<and>
             lastBlock (snd (CleanByHeight st h)) = NilHeight"
  proof (cases "PreGenesisHeight + 1 < h")
    case True
    with cleanByHeight_ok [OF r True] s show ?thesis by simp
  next
    case False
    with r have "clean st = (None, st')" by (simp add: cleanByHeight_def)
    from clean_ok [OF this] False s show ?thesis by simp
  qed
qed

theorem CleanByHeight_rollback_witness:
  "\<not> readonly example_store \<and>
   fst (CleanByHeight example_store 5) = None \<and>
   collections (database (snd (CleanByHeight example_store 5))) defaultColNameOperation
     = [example_op 3 0] \<and>
   lastBlock (snd (CleanByHeight example_store 5)) = 4"
  using CleanByHeight_rollback [of example_store 5]
  by (simp add: example_store_def NewDatabase_def empty_mongodb_def by_height_collections_def
      PreGenesisHeight_def defaultColNameAccount_def defaultColNameDocument_def
      defaultColNameBalance_def defaultColNameOperation_def defaultColNameFileData_def
      example_op_def)

text \<open>
  The file data collection is dropped by \<^verbatim>\<open>clean\<close> and is not in the list
  \<^verbatim>\<open>cleanByHeight\<close> deletes from: a file data record of height 7 is still there after
  \<^verbatim>\<open>CleanByHeight(5)\<close>.
\<close>

lemma CleanByHeight_keeps_filedata:
  "fst (CleanByHeight example_store 5) = None \<and>
   collections (database (snd (CleanByHeight example_store 5))) defaultColNameFileData
     = [example_filedata] \<and>
   doc_height example_filedata = 7"
  by (simp add: CleanByHeight_def cleanByHeight_def setLastBlock_def
      example_store_def NewDatabase_def empty_mongodb_def
      PreGenesisHeight_def defaultColNameAccount_def defaultColNameDocument_def
      defaultColNameBalance_def defaultColNameOperation_def defaultColNameFileData_def
      example_filedata_def)

section \<open>Digesting a block\<close>

text \<open>
  C3. Provided the session's \<^verbatim>\<open>Commit\<close> does not itself write the marker: when the
  session cannot be made, or \<^verbatim>\<open>Prepare\<close> or \<^verbatim>\<open>Commit\<close> fails, \<^verbatim>\<open>DigestBlock\<close> returns that
  error and the marker is unchanged; and whenever \<^verbatim>\<open>DigestBlock\<close> changes the marker,
  \<^verbatim>\<open>Prepare\<close> and \<^verbatim>\<open>Commit\<close> have both succeeded, the result is that of \<^verbatim>\<open>SetLastBlock\<close>
  with the block's height on the committed store, and the new marker is the block's height.
\<close>

theorem DigestBlock_marker:
  assumes "\<forall>bs s. lastBlock (snd (Commit ops bs s)) = lastBlock s"
  shows "(\<forall>e. NewBlockSession ops st blk = Inl e \<or>
              (\<exists>bs. NewBlockSession ops st blk = Inr bs \<and> Prepare ops bs = Inl e) \<or>
              (\<exists>bs bs'. NewBlockSession ops st blk = Inr bs \<and> Prepare ops bs = Inr bs' \<and>
                         fst (Commit ops bs' st) = Some e) \<longrightarrow>
              fst (DigestBlock ops st blk) = Some e \<and>
              lastBlock (snd (DigestBlock ops st blk)) = lastBlock st) \<and>
         (lastBlock (snd (DigestBlock ops st blk)) \<noteq> lastBlock st \<longrightarrow>
            (\<exists>bs bs' st'. NewBlockSession ops st blk = Inr bs \<and> Prepare ops bs = Inr bs' \<and>
                           Commit ops bs' st = (None, st') \<and>
                           DigestBlock ops st blk = SetLastBlock st' (blk_height blk)) \<and>
            lastBlock (snd (DigestBlock ops st blk)) = blk_height blk)"
proof (rule conjI)
  show "\<forall>e. NewBlockSession ops st blk = Inl e \<or>
              (\<exists>bs. NewBlockSession ops st blk = Inr bs \<and> Prepare ops bs = Inl e) \<or>
              (\<exists>bs bs'. NewBlockSession ops st blk = Inr bs \<and> Prepare ops bs = Inr bs' \<and>
                         fst (Commit ops bs' st) = Some e) \<longrightarrow>
              fst (DigestBlock ops st blk) = Some e \<and>
              lastBlock (snd (DigestBlock ops st blk)) = lastBlock st"
  proof (intro allI impI)
    fix e
    assume "NewBlockSession ops st blk = Inl e \<or>
            (\<exists>bs. NewBlockSession ops st blk = Inr bs \<and> Prepare ops bs = Inl e) \<or>
            (\<exists>bs bs'. NewBlockSession ops st blk = Inr bs \<and> Prepare ops bs = Inr bs' \<and>
                       fst (Commit ops bs' st) = Some e)"
    then consider
        (new) "NewBlockSession ops st blk = Inl e"
      | (prep) bs where "NewBlockSession ops st blk = Inr bs" "Prepare ops bs = Inl e"
      | (comm) bs bs' where "NewBlockSession ops st blk = Inr bs" "Prepare ops bs = Inr bs'"
          "fst (Commit ops bs' st) = Some e"
      by blast
    then show "fst (DigestBlock ops st blk) = Some e \<and>
               lastBlock (snd (DigestBlock ops st blk)) = lastBlock st"
    proof cases
      case new
      then show ?thesis by (simp add: DigestBlock_def)
    next
      case prep
      then show ?thesis by (simp add: DigestBlock_def)
    next
      case comm
      obtain st' where c: "Commit ops bs' st = (Some e, st')"
        using comm(3) by (cases "Commit ops bs' st") simp
      have "lastBlock st' = lastBlock st" using assms c by (metis snd_conv)
      with comm c show ?thesis by (simp add: DigestBlock_def)
    qed
  qed
next
  show "lastBlock (snd (DigestBlock ops st blk)) \<noteq> lastBlock st \<longrightarrow>
          (\<exists>bs bs' st'. NewBlockSession ops st blk = Inr bs \<and> Prepare ops bs = Inr bs' \<and>
                         Commit ops bs' st = (None, st') \<and>
                         DigestBlock ops st blk = SetLastBlock st' (blk_height blk)) \<and>
          lastBlock (snd (DigestBlock ops st blk)) = blk_height blk"
  proof (rule impI)
    assume ch: "lastBlock (snd (DigestBlock ops st blk)) \<noteq> lastBlock st"
    then obtain bs where n: "NewBlockSession ops st blk = Inr bs"
      by (cases "NewBlockSession ops st blk") (simp_all add: DigestBlock_def)
    with ch obtain bs' where p: "Prepare ops bs = Inr bs'"
      by (cases "Prepare ops bs") (simp_all add: DigestBlock_def)
    obtain eo st' where c: "Commit ops bs' st = (eo, st')"
      by (cases "Commit ops bs' st")
    have m: "lastBlock st' = lastBlock st" using assms c by (metis snd_conv)
    have eo: "eo = None"
    proof (cases eo)
      case None
      then show ?thesis .
    next
      case (Some e)
      with n p c m ch show ?thesis by (simp add: DigestBlock_def)
    qed
    have d: "DigestBlock ops st blk = SetLastBlock st' (blk_height blk)"
      using n p c eo by (simp add: DigestBlock_def)
    with ch m have "lastBlock (snd (SetLastBlock st' (blk_height blk))) \<noteq> lastBlock st'" by simp
    then have "lastBlock (snd (SetLastBlock st' (blk_height blk))) = blk_height blk"
      by (auto simp: SetLastBlock_def setLastBlock_def split: if_splits option.splits)
    with n p c eo d
    show "(\<exists>bs bs' st'. NewBlockSession ops st blk = Inr bs \<and> Prepare ops bs = Inr bs' \<and>
                         Commit ops bs' st = (None, st') \<and>
                         DigestBlock ops st blk = SetLastBlock st' (blk_height blk)) \<and>
          lastBlock (snd (DigestBlock ops st blk)) = blk_height blk"
      by auto
  qed
qed

theorem DigestBlock_marker_witness:
  "lastBlock (snd (DigestBlock example_session (NewDatabase empty_mongodb) example_block)) = 3 \<and>
   fst (DigestBlock failing_session (NewDatabase empty_mongodb) example_block)
     = Some (Errorf ''prepare'') \<and>
   lastBlock (snd (DigestBlock failing_session (NewDatabase empty_mongodb) example_block))
     = NilHeight"
  using DigestBlock_marker [of example_session "NewDatabase empty_mongodb" example_block]
    DigestBlock_marker [of failing_session "NewDatabase empty_mongodb" example_block]
  by (simp add: example_session_def failing_session_def example_block_def DigestBlock_def
      SetLastBlock_def setLastBlock_def NewDatabase_def empty_mongodb_def NilHeight_def)

section \<open>Sorting\<close>

lemma doc_le_total: "doc_le sp a b \<or> doc_le sp b a"
  by (induction sp a b rule: doc_le.induct) auto

lemma doc_le_trans: "doc_le sp a b \<Longrightarrow> doc_le sp b c \<Longrightarrow> doc_le sp a c"
proof (induction sp arbitrary: a b c)
  case Nil
  then show ?case by simp
next
  case (Cons p sp)
  obtain f dir where p: "p = (f, dir)" by (cases p)
  from Cons.prems show ?case
    unfolding p by (auto split: if_splits intro: Cons.IH)
qed

lemma mset_insort_doc: "mset (insort_doc sp x ys) = add_mset x (mset ys)"
  by (induction ys) simp_all

lemma set_insort_doc: "set (insort_doc sp x ys) = insert x (set ys)"
  by (induction ys) auto

lemma sorted_insort_doc:
  "sorted_wrt (doc_le sp) ys \<Longrightarrow> sorted_wrt (doc_le sp) (insort_doc sp x ys)"
proof (induction ys)
  case Nil
  then show ?case by simp
next
  case (Cons y ys)
  show ?case
  proof (cases "doc_le sp x y")
    case True
    with Cons.prems show ?thesis by (auto intro: doc_le_trans)
  next
    case False
    then have "doc_le sp y x" using doc_le_total by blast
    with False Cons show ?thesis by (auto simp: set_insort_doc)
  qed
qed

lemma mset_sort_docs: "mset (sort_docs sp ds) = mset ds"
  by (induction ds) (simp_all add: sort_docs_def mset_insort_doc)

lemma set_sort_docs: "set (sort_docs sp ds) = set ds"
  using mset_sort_docs by (metis set_mset_mset)

lemma length_sort_docs: "length (sort_docs sp ds) = length ds"
  using mset_sort_docs by (metis size_mset)

lemma sorted_sort_docs: "sorted_wrt (doc_le sp) (sort_docs sp ds)"
  by (induction ds) (simp_all add: sort_docs_def sorted_insort_doc)

section \<open>Scanning the operations of an address\<close>

lemma doc_le_cursor_le:
  "doc_le [(''height'', if reverse then - 1 else 1), (''index'', if reverse then - 1 else 1)] x y
     = cursor_le reverse x y"
  by (auto simp: cursor_le_def sort_val_def Let_def)

lemma cursor_filter_eq:
  assumes "in_int64 h" and "in_uint64 i"
  shows "buildOperationsFilterByAddress a (buildOffset h i) reverse =
           Inr [FField ''addresses'' (CIn [a]),
                if reverse
                then FOr [FField ''height'' (CLt (BInt h)),
                          FAnd [FField ''height'' (CEq (BInt h)),
                                FField ''index'' (CLt (BInt (int i)))]]
                else FOr [FField ''height'' (CGt (BInt h)),
                          FAnd [FField ''height'' (CEq (BInt h)),
                                FField ''index'' (CGt (BInt (int i)))]]]"
  using assms
  by (simp add: buildOperationsFilterByAddress_def buildOffset_nonempty
      parseOffset_buildOffset_eq Let_def)

lemma matches_cursor_filter:
  "matches_all
     [FField ''addresses'' (CIn [a]),
      if reverse
      then FOr [FField ''height'' (CLt (BInt h)),
                FAnd [FField ''height'' (CEq (BInt h)), FField ''index'' (CLt (BInt (int i)))]]
      else FOr [FField ''height'' (CGt (BInt h)),
                FAnd [FField ''height'' (CEq (BInt h)), FField ''index'' (CGt (BInt (int i)))]]] d
     = op_selected a reverse h i d"
  by (cases d) (auto simp: matches_all_def doc_field_def op_selected_def list_ex_iff)

lemma operation_cursor_collect_values:
  "operation_cursor True collect_values acc (OperationDoc adrs va) = (Inr True, acc @ [va])"
  by (simp add: operation_cursor_def loadOperation_def collect_values_def)

lemma find_loop_collect_values:
  "\<forall>d \<in> set ds. \<exists>adrs va. d = OperationDoc adrs va \<Longrightarrow>
   find_loop (operation_cursor True collect_values) acc ds = (None, acc @ map doc_operation ds)"
proof (induction ds arbitrary: acc)
  case Nil
  then show ?case by simp
next
  case (Cons d ds)
  then obtain adrs va where d: "d = OperationDoc adrs va" by auto
  have "find_loop (operation_cursor True collect_values) (acc @ [va]) ds
          = (None, (acc @ [va]) @ map doc_operation ds)"
    using Cons by simp
  then show ?case
    by (simp add: d operation_cursor_collect_values)
qed

text \<open>
  C4. For every address and every offset \<open>(h, i)\<close>, the documents an \<^verbatim>\<open>OperationsByAddress\<close>
  scan runs over are exactly the operations of the address that lie strictly after the
  cursor (forward) or strictly before it (reverse), each as often as the collection holds
  it, ordered by \<open>(height, index)\<close> ascending (forward) or descending (reverse), with no
  other field deciding the order. The callback is called on them in that order, up to the
  page limit and until it stops the scan; with no limit, a callback that keeps going is
  given every one of them.
\<close>

theorem OperationsByAddress_cursor:
  assumes "in_int64 h" and "in_uint64 i"
    and "fails (database st) (FindCall defaultColNameOperation) = None"
  shows "\<exists>xs. mset xs = filter_mset (op_selected a reverse h i)
                          (mset (collections (database st) defaultColNameOperation)) \<and>
              sorted_wrt (cursor_le reverse) xs \<and>
              (\<forall>load limit callback acc.
                 OperationsByAddress st a load reverse (buildOffset h i) limit callback acc =
                   find_loop (operation_cursor load callback) acc
                     (limit_docs (opt_limit (operations_options reverse limit)) xs)) \<and>
              (\<forall>limit \<le> 0.
                 OperationsByAddress st a True reverse (buildOffset h i) limit collect_values [] =
                   (None, map doc_operation xs))"
proof -
  obtain q where q: "buildOperationsFilterByAddress a (buildOffset h i) reverse = Inr q"
    and m: "matches_all q = op_selected a reverse h i"
    using cursor_filter_eq [OF assms(1,2)] matches_cursor_filter by blast
  let ?col = "collections (database st) defaultColNameOperation"
  let ?sp = "[(''height'', if reverse then - 1 else 1), (''index'', if reverse then - 1 else (1::int))]"
  let ?xs = "sort_docs ?sp (filter (op_selected a reverse h i) ?col)"
  have sp: "opt_sort (operations_options reverse limit) = ?sp" for limit
    by (simp add: operations_options_def Let_def)
  have run: "OperationsByAddress st a load reverse (buildOffset h i) limit callback acc =
               find_loop (operation_cursor load callback) acc
                 (limit_docs (opt_limit (operations_options reverse limit)) ?xs)"
    for load limit and callback :: "'a operation_callback" and acc
    by (simp add: OperationsByAddress_def q Find_def assms(3) find_docs_def m sp)
  have 1: "mset ?xs = filter_mset (op_selected a reverse h i) (mset ?col)"
    by (simp add: mset_sort_docs)
  have "sorted_wrt (doc_le ?sp) ?xs" by (rule sorted_sort_docs)
  then have 2: "sorted_wrt (cursor_le reverse) ?xs"
    using doc_le_cursor_le [of reverse] by (simp add: sorted_wrt_iff_nth_less)
  have ops: "\<forall>d \<in> set ?xs. \<exists>adrs va. d = OperationDoc adrs va"
    by (auto simp: set_sort_docs op_selected_def split: doc.splits)
  have 3: "OperationsByAddress st a True reverse (buildOffset h i) limit collect_values [] =
             (None, map doc_operation ?xs)" if "limit \<le> 0" for limit
    using that find_loop_collect_values [OF ops, of "[]"]
    by (simp add: OperationsByAddress_def q Find_def assms(3) find_docs_def m sp
        operations_options_def limit_docs_def Let_def)
  from 1 2 run 3 show ?thesis by blast
qed

theorem OperationsByAddress_cursor_witness:
  "in_int64 3 \<and> in_uint64 0 \<and>
   OperationsByAddress example_store ''A'' True False (buildOffset 3 0) 0 collect_values []
     = (None, [doc_operation (example_op 7 1)])"
  using OperationsByAddress_cursor [of 3 0 example_store "''A''" False]
  by (auto simp: in_int64_def in_uint64_def example_store_def NewDatabase_def empty_mongodb_def
      op_selected_def example_op_def defaultColNameOperation_def defaultColNameFileData_def)

section \<open>The page size\<close>

lemma find_loop_counted_le:
  "fst (snd (find_loop (operation_cursor load (counted cb)) (n, acc) ds)) \<le> n + length ds"
proof (induction ds arbitrary: n acc)
  case Nil
  then show ?case by simp
next
  case (Cons d ds)
  obtain r s where step: "operation_cursor load (counted cb) (n, acc) d = (r, s)"
    by (cases "operation_cursor load (counted cb) (n, acc) d")
  have s: "fst s \<le> Suc n"
    using step
    by (auto simp: operation_cursor_def counted_def loadOperationHash_def
        split: if_splits sum.splits prod.splits)
  show ?case
  proof (cases r)
    case (Inl e)
    with step s show ?thesis by simp
  next
    case (Inr keep)
    have "fst (snd (find_loop (operation_cursor load (counted cb)) (fst s, snd s) ds))
            \<le> fst s + length ds"
      by (rule Cons.IH)
    with step Inr s show ?thesis by simp
  qed
qed

lemma find_loop_count_all:
  "find_loop (operation_cursor False (counted collect_hashes)) (n, acc) ds
     = (None, (n + length ds, acc @ map (\<lambda>d. case doc_fact d of Some h \<Rightarrow> h | None \<Rightarrow> []) ds))"
proof (induction ds arbitrary: n acc)
  case Nil
  then show ?case by simp
next
  case (Cons d ds)
  have step: "operation_cursor False (counted collect_hashes) (n, acc) d
                = (Inr True, (Suc n, acc @ [case doc_fact d of Some h \<Rightarrow> h | None \<Rightarrow> []]))"
    by (simp add: operation_cursor_def counted_def collect_hashes_def loadOperationHash_def)
  show ?case by (simp add: step Cons.IH)
qed

lemma length_limit_docs_Some: "0 < n \<Longrightarrow> length (limit_docs (Some n) ds) \<le> nat n"
  by (simp add: limit_docs_def)

lemma length_find_docs_capped:
  "0 < limit \<Longrightarrow>
   length (find_docs db col q (operations_options reverse limit)) \<le> nat (min limit maxLimit)"
  by (auto simp: find_docs_def operations_options_def Let_def limit_docs_def maxLimit_def min_def)

lemma find_docs_unlimited:
  "limit \<le> 0 \<Longrightarrow>
   length (find_docs db col q (operations_options reverse limit))
     = length (filter (matches_all q) (collections db col))"
  by (simp add: find_docs_def operations_options_def Let_def limit_docs_def length_sort_docs)

lemma Find_counted_le:
  "fst (snd (Find db col q (operation_cursor load (counted cb)) opt (0, acc)))
     \<le> length (find_docs db col q opt)"
  using find_loop_counted_le [of load cb 0 acc "find_docs db col q opt"]
  by (simp add: Find_def split: option.splits)

text \<open>
  The claim C5 as it is written fails for a limit of zero: on a store with 51 operations
  under one address, both scans call the callback 51 times, which is more than
  \<^verbatim>\<open>maxLimit\<close>.
\<close>

theorem Operations_zero_limit_uncapped:
  "fst (snd (Operations many_ops_store [] False False 0 (counted collect_hashes) (0, []))) = 51 \<and>
   fst (snd (OperationsByAddress many_ops_store ''A'' False False [] 0
               (counted collect_hashes) (0, []))) = 51 \<and>
   \<not> (51 \<le> nat maxLimit)"
  by (simp add: Operations_def OperationsByAddress_def buildOperationsFilterByAddress_def
      Find_def find_loop_count_all find_docs_unlimited
      many_ops_store_def NewDatabase_def empty_mongodb_def maxLimit_def
      matches_all_def doc_field_def example_op_def)

text \<open>
  C5 (amended). For every positive requested limit, \<^verbatim>\<open>OperationsByAddress\<close> and
  \<^verbatim>\<open>Operations\<close> call the callback at most \<open>min(limit, maxLimit)\<close> times, so never more
  than 50 times. For a zero or negative limit there is no cap: when the find call does
  not fail, a callback that keeps going is called once for every match.
\<close>

theorem Operations_page_cap:
  "(0 < limit \<longrightarrow>
      fst (snd (OperationsByAddress st a load reverse offset limit (counted cb) (0, acc)))
        \<le> nat (min limit maxLimit) \<and>
      fst (snd (Operations st q load reverse limit (counted cb) (0, acc)))
        \<le> nat (min limit maxLimit) \<and>
      nat (min limit maxLimit) \<le> 50) \<and>
   (limit \<le> 0 \<and> fails (database st) (FindCall defaultColNameOperation) = None \<longrightarrow>
      fst (snd (Operations st q False reverse limit (counted collect_hashes) (0, [])))
        = length (filter (matches_all q) (collections (database st) defaultColNameOperation)))"
proof (intro conjI impI)
  assume l: "0 < limit"
  show "fst (snd (OperationsByAddress st a load reverse offset limit (counted cb) (0, acc)))
          \<le> nat (min limit maxLimit)"
  proof (cases "buildOperationsFilterByAddress a offset reverse")
    case (Inl e)
    then show ?thesis by (simp add: OperationsByAddress_def)
  next
    case (Inr fltr)
    have "fst (snd (Find (database st) defaultColNameOperation fltr
                      (operation_cursor load (counted cb)) (operations_options reverse limit) (0, acc)))
            \<le> nat (min limit maxLimit)"
      using Find_counted_le length_find_docs_capped [OF l] by (rule order_trans)
    with Inr show ?thesis by (simp add: OperationsByAddress_def)
  qed
  show "fst (snd (Operations st q load reverse limit (counted cb) (0, acc)))
          \<le> nat (min limit maxLimit)"
    unfolding Operations_def
    using Find_counted_le length_find_docs_capped [OF l] by (rule order_trans)
  show "nat (min limit maxLimit) \<le> 50" by (auto simp: maxLimit_def min_def)
next
  assume "limit \<le> 0 \<and> fails (database st) (FindCall defaultColNameOperation) = None"
  then show "fst (snd (Operations st q False reverse limit (counted collect_hashes) (0, [])))
          = length (filter (matches_all q) (collections (database st) defaultColNameOperation))"
    by (simp add: Operations_def Find_def find_loop_count_all find_docs_unlimited)
qed

theorem Operations_page_cap_witness:
  "fst (snd (Operations many_ops_store [] False False 3 (counted collect_hashes) (0, []))) \<le> 3 \<and>
   fst (snd (Operations many_ops_store [] False False 0 (counted collect_hashes) (0, []))) = 51"
  using Operations_page_cap [of 3 many_ops_store "''A''" False False "[]" collect_hashes "[]" "[]"]
    Operations_page_cap [of 0 many_ops_store "''A''" False False "[]" collect_hashes "[]" "[]"]
  by (simp add: many_ops_store_def NewDatabase_def empty_mongodb_def maxLimit_def
      matches_all_def)

section \<open>The last-digested-height marker\<close>

text \<open>
  C6. On a writable store, \<^verbatim>\<open>SetLastBlock(h)\<close> with \<open>h\<close> at or below the current marker
  returns nil and leaves the store as it is; with \<open>h\<close> above the marker it sets the marker
  to \<open>h\<close> when it returns nil and leaves the store as it is when the write fails; the
  marker after the call is never below the marker before it.
\<close>

theorem SetLastBlock_monotone:
  assumes "\<not> readonly st"
  shows "(h \<le> lastBlock st \<longrightarrow> SetLastBlock st h = (None, st)) \<and>
         (lastBlock st < h \<longrightarrow>
            (case fst (SetLastBlock st h) of
               None \<Rightarrow> lastBlock (snd (SetLastBlock st h)) = h
             | Some e \<Rightarrow> snd (SetLastBlock st h) = st)) \<and>
         lastBlock st \<le> lastBlock (snd (SetLastBlock st h))"
  using assms by (simp add: SetLastBlock_def setLastBlock_def split: option.split)

theorem SetLastBlock_monotone_witness:
  "\<not> readonly (NewDatabase empty_mongodb) \<and>
   SetLastBlock (NewDatabase empty_mongodb) (- 3) = (None, NewDatabase empty_mongodb) \<and>
   lastBlock (snd (SetLastBlock (NewDatabase empty_mongodb) 5)) = 5"
  using SetLastBlock_monotone [of "NewDatabase empty_mongodb" "- 3"]
    SetLastBlock_monotone [of "NewDatabase empty_mongodb" 5]
  by (simp add: NewDatabase_def empty_mongodb_def NilHeight_def SetLastBlock_def setLastBlock_def)

end
